theory Spec2Isabelle
  imports Main
begin

section \<open>JavaScript values\<close>

text \<open>
  The executors and the agent methods of the repository compute on plain JavaScript
  values: objects built by object literals, arrays, strings, numbers, booleans,
  \<open>null\<close> and \<open>undefined\<close>.  An object is an association list in property order.
  Numbers that occur in the modelled code are array lengths and integer literals, so
  \<open>JNum\<close> carries an \<open>int\<close>.  A string is a list of 8-bit characters.
\<close>

datatype jsval =
    JUndefined
  | JNull
  | JBool bool
  | JNum int
  | JStr string
  | JArr "jsval list"
  | JObj "(string \<times> jsval) list"

type_synonym obj = "(string \<times> jsval) list"

text \<open>Property read \<open>o.k\<close> on an object: \<open>undefined\<close> when the property is absent.\<close>

definition property :: "obj \<Rightarrow> string \<Rightarrow> jsval" where
  "property ob k = (case map_of ob k of None \<Rightarrow> JUndefined | Some v \<Rightarrow> v)"

text \<open>Truthiness of a value, as \<open>c ? a : b\<close>, \<open>a || b\<close> and \<open>if (c)\<close> test it.\<close>

fun truthy :: "jsval \<Rightarrow> bool" where
  "truthy JUndefined = False"
| "truthy JNull = False"
| "truthy (JBool b) = b"
| "truthy (JNum n) = (n \<noteq> 0)"
| "truthy (JStr s) = (s \<noteq> [])"
| "truthy (JArr xs) = True"
| "truthy (JObj ob) = True"

text \<open>\<open>a || b\<close>.\<close>

definition js_or :: "jsval \<Rightarrow> jsval \<Rightarrow> jsval" where
  "js_or a b = (if truthy a then a else b)"

text \<open>
  A destructuring default \<open>const { k = d } = input\<close>: the default is taken exactly
  when the property reads \<open>undefined\<close> (absent, or present with the value
  \<open>undefined\<close>); \<open>null\<close> does not trigger it.
\<close>

definition destructure_default :: "obj \<Rightarrow> string \<Rightarrow> jsval \<Rightarrow> jsval" where
  "destructure_default input k d = (if property input k = JUndefined then d else property input k)"

text \<open>
  Member reads on a value that is known not to be \<open>null\<close> or \<open>undefined\<close>:
  \<open>v.length\<close> and \<open>v[0]\<close>.  Numbers and booleans have neither.
\<close>

fun member_length :: "jsval \<Rightarrow> jsval" where
  "member_length (JArr xs) = JNum (int (length xs))"
| "member_length (JStr s) = JNum (int (length s))"
| "member_length (JObj ob) = property ob ''length''"
| "member_length v = JUndefined"

fun member_0 :: "jsval \<Rightarrow> jsval" where
  "member_0 (JArr xs) = (case xs of [] \<Rightarrow> JUndefined | x # _ \<Rightarrow> x)"
| "member_0 (JStr s) = (case s of [] \<Rightarrow> JUndefined | c # _ \<Rightarrow> JStr [c])"
| "member_0 (JObj ob) = property ob ''0''"
| "member_0 v = JUndefined"

text \<open>Optional chaining \<open>v?.m\<close>: \<open>undefined\<close> when \<open>v\<close> is \<open>null\<close> or \<open>undefined\<close>.\<close>

definition nullish :: "jsval \<Rightarrow> bool" where
  "nullish v = (v = JUndefined \<or> v = JNull)"

definition opt_chain :: "(jsval \<Rightarrow> jsval) \<Rightarrow> jsval \<Rightarrow> jsval" where
  "opt_chain m v = (if nullish v then JUndefined else m v)"

text \<open>Reading a property of a value for use in statements about results.\<close>

fun sel :: "jsval \<Rightarrow> string \<Rightarrow> jsval" where
  "sel (JObj ob) k = property ob k"
| "sel v k = JUndefined"

section \<open>Strings, thrown errors and effects\<close>

text \<open>Decimal rendering of an integer, as a template literal \<open>`${n}`\<close> renders it.\<close>

definition digit :: "nat \<Rightarrow> char" where
  "digit n = ''0123456789'' ! n"

fun decimal :: "nat \<Rightarrow> string" where
  "decimal n = (if n div 10 = 0 then [digit n] else decimal (n div 10) @ [digit (n mod 10)])"

declare decimal.simps [simp del]

definition Number_toString :: "int \<Rightarrow> string" where
  "Number_toString i = (if 0 \<le> i then decimal (nat i) else CHR ''-'' # decimal (nat (- i)))"

fun join_with :: "string \<Rightarrow> string list \<Rightarrow> string" where
  "join_with sep [] = []"
| "join_with sep [s] = s"
| "join_with sep (s # t # ss) = s @ sep @ join_with sep (t # ss)"

text \<open>
  \<open>String(v)\<close>: the conversion that \<open>new Error(v)\<close> and a template literal apply.
  An array joins its elements with commas, \<open>null\<close> and \<open>undefined\<close> elements
  giving the empty string.
\<close>

fun js_to_string :: "jsval \<Rightarrow> string" where
  "js_to_string JUndefined = ''undefined''"
| "js_to_string JNull = ''null''"
| "js_to_string (JBool b) = (if b then ''true'' else ''false'')"
| "js_to_string (JNum n) = Number_toString n"
| "js_to_string (JStr s) = s"
| "js_to_string (JArr xs) =
     join_with '','' (map (\<lambda>x. if x = JUndefined \<or> x = JNull then [] else js_to_string x) xs)"
| "js_to_string (JObj ob) = ''[object Object]''"

text \<open>
  A thrown value.  The repository throws \<open>Error\<close> objects; reading a member of
  \<open>null\<close> or \<open>undefined\<close> makes the runtime throw a \<open>TypeError\<close>.
\<close>

datatype js_error = Error string | TypeError string

text \<open>\<open>new Error(v)\<close>: the message is \<open>String(v)\<close>, and empty when \<open>v\<close> is \<open>undefined\<close>.\<close>

definition new_Error :: "jsval \<Rightarrow> js_error" where
  "new_Error v = Error (if v = JUndefined then [] else js_to_string v)"

text \<open>\<open>v.length\<close> where \<open>v\<close> may be \<open>null\<close> or \<open>undefined\<close>.\<close>

definition get_length :: "jsval \<Rightarrow> js_error + jsval" where
  "get_length v =
     (if v = JUndefined then Inl (TypeError ''Cannot read properties of undefined (reading 'length')'')
      else if v = JNull then Inl (TypeError ''Cannot read properties of null (reading 'length')'')
      else Inr (member_length v))"

text \<open>
  An awaited call into a collaborator outside the repository (the Composio SDK, the
  Anthropic client) either throws or returns, and may change that collaborator's state
  \<open>'w\<close>.  A \<open>try { ... } catch (error) { console.error(...); throw error }\<close> block
  passes the thrown value on unchanged; console output is not part of the model.
\<close>

type_synonym ('a, 'w) io = "'w \<Rightarrow> (js_error + 'a) \<times> 'w"

definition bind_io :: "('a, 'w) io \<Rightarrow> ('a \<Rightarrow> ('b, 'w) io) \<Rightarrow> ('b, 'w) io" where
  "bind_io m f w = (case m w of (Inl e, w') \<Rightarrow> (Inl e, w') | (Inr a, w') \<Rightarrow> f a w')"

section \<open>Executors of the custom tools\<close>

text \<open>
  An executor is the \<open>execute: async (input, _connectionConfig) => ...\<close> function of a
  tool definition.  It receives the input object and returns the object literal of its
  \<open>return\<close> statement, or throws.
\<close>

subsection \<open>\<open>index.ts\<close>, \<open>createGmailCustomTools\<close>\<close>

definition GMAIL_GET_MESSAGES_CONTENT_BATCH_execute :: "obj \<Rightarrow> js_error + obj" where
  "GMAIL_GET_MESSAGES_CONTENT_BATCH_execute input =
     (let message_ids = property input ''message_ids'';
          user_google_email = property input ''user_google_email'';
          include_attachments = destructure_default input ''include_attachments'' (JBool False)
      in case get_length message_ids of
           Inl e \<Rightarrow> Inl e
         | Inr count \<Rightarrow>
             Inr [(''data'', JObj
                    [(''messages'', JArr []),
                     (''count'', count),
                     (''user_email'', user_google_email)])])"


definition GMAIL_BATCH_DELETE_MESSAGES_execute :: "obj \<Rightarrow> js_error + obj" where
  "GMAIL_BATCH_DELETE_MESSAGES_execute input =
     (let message_ids = property input ''message_ids'';
          user_google_email = property input ''user_google_email''
      in case get_length message_ids of
           Inl e \<Rightarrow> Inl e
         | Inr deleted_count \<Rightarrow>
             Inr [(''data'', JObj
                    [(''deleted_count'', deleted_count),
                     (''message_ids'', message_ids),
                     (''status'', JStr ''success'')])])"

subsection \<open>\<open>custom-tools\<close>, \<open>createEmailAnalyticsTool\<close>\<close>

text \<open>
  The executor of \<open>EMAIL_ANALYTICS\<close> draws on \<open>Math.random()\<close> and the clock.  These
  are inputs of the model: the three floored random integers, the floating-point
  \<open>sentiment_score\<close> as an opaque value, and the ISO timestamp.
\<close>

record analytics_env =
  total_emails_random :: int
  avg_daily_random :: int
  response_rate_random :: int
  sentiment_score_value :: jsval
  now_iso :: string

definition EMAIL_ANALYTICS_execute :: "analytics_env \<Rightarrow> obj \<Rightarrow> js_error + obj" where
  "EMAIL_ANALYTICS_execute env input =
     (let timeframe = property input ''timeframe'';
          analysisType = property input ''analysisType'';
          includeThreads = property input ''includeThreads'';
          analytics = JObj
            [(''period'', timeframe),
             (''analysis_type'', analysisType),
             (''metrics'', JObj
                [(''total_emails'', JNum (total_emails_random env + 20)),
                 (''avg_daily'', JNum (avg_daily_random env + 5)),
                 (''response_rate'', JNum (response_rate_random env + 60)),
                 (''top_senders'', JArr
                    [JObj [(''email'', JStr ''colleague@company.com''), (''count'', JNum 12)],
                     JObj [(''email'', JStr ''client@external.com''), (''count'', JNum 8)],
                     JObj [(''email'', JStr ''notifications@service.com''), (''count'', JNum 25)]]),
                 (''busiest_hours'', JArr [JStr ''9-10 AM'', JStr ''2-3 PM'', JStr ''4-5 PM'']),
                 (''sentiment_score'', sentiment_score_value env)]),
             (''insights'', JArr
                [JStr ''Peak email activity occurs during mid-morning and afternoon'',
                 JStr ''Response rate is above average for your industry'',
                 JStr ''Consider email batching during high-volume periods'']),
             (''generated_at'', JStr (now_iso env))]
      in Inr [(''data'', analytics), (''successful'', JBool True), (''error'', JNull)])"

subsection \<open>\<open>index.ts\<close>, \<open>createSheetsCustomTools\<close>\<close>

definition SHEETS_MODIFY_SHEET_VALUES_execute :: "obj \<Rightarrow> obj" where
  "SHEETS_MODIFY_SHEET_VALUES_execute input =
     (let user_google_email = property input ''user_google_email'';
          spreadsheet_id = property input ''spreadsheet_id'';
          range_name = property input ''range_name'';
          values = property input ''values'';
          value_input_option = destructure_default input ''value_input_option'' (JStr ''USER_ENTERED'');
          clear_values = destructure_default input ''clear_values'' (JBool False)
      in [(''data'', JObj
           [(''updated_cells'',
               if truthy clear_values then JNum 0
               else js_or (opt_chain member_length values) (JNum 0)),
            (''updated_rows'',
               if truthy clear_values then JNum 0
               else js_or (opt_chain member_length values) (JNum 0)),
            (''updated_columns'',
               if truthy clear_values then JNum 0
               else js_or (opt_chain member_length (opt_chain member_0 values)) (JNum 0)),
            (''range'', range_name),
            (''operation'', if truthy clear_values then JStr ''clear'' else JStr ''update''),
            (''spreadsheet_id'', spreadsheet_id)])])"

subsection \<open>\<open>index.ts\<close>, \<open>createTasksCustomTools\<close>\<close>

text \<open>
  The local variables an executor runs with are those its destructuring pattern
  \<open>const { a, b = d, ... } = input\<close> binds.  A pattern is the list of its names,
  each with the default the pattern gives it, if any; \<open>destructure\<close> yields the
  bindings.
\<close>

definition destructure :: "(string \<times> jsval option) list \<Rightarrow> obj \<Rightarrow> obj" where
  "destructure pattern input =
     map (\<lambda>(k, d). (k, case d of None \<Rightarrow> property input k
                              | Some dv \<Rightarrow> destructure_default input k dv)) pattern"



text \<open>
  \<open>TASKS_LIST_TASKS\<close>.  Its schema describes \<open>max_results\<close> as
  \<open>Maximum number of tasks to return (default: 20, max: 10000)\<close>, and the pattern of
  its executor gives that default.
\<close>

definition TASKS_LIST_TASKS_destructure :: "obj \<Rightarrow> obj" where
  "TASKS_LIST_TASKS_destructure input =
     destructure
       [(''user_google_email'', None), (''task_list_id'', None),
        (''max_results'', Some (JNum 20)), (''page_token'', None),
        (''show_completed'', Some (JBool True)), (''show_deleted'', Some (JBool False)),
        (''show_hidden'', Some (JBool False)), (''show_assigned'', Some (JBool False)),
        (''completed_max'', None), (''completed_min'', None), (''due_max'', None),
        (''due_min'', None), (''updated_min'', None)] input"

definition TASKS_LIST_TASKS_execute :: "obj \<Rightarrow> js_error + obj" where
  "TASKS_LIST_TASKS_execute input =
     (let vars = TASKS_LIST_TASKS_destructure input
      in Inr [(''data'', JObj
                [(''task_list_id'', property vars ''task_list_id''),
                 (''tasks'', JArr []),
                 (''next_page_token'', property vars ''page_token''),
                 (''total_count'', JNum 0),
                 (''user_email'', property vars ''user_google_email'')])])"

section \<open>The Composio client wrapper: \<open>executeTool\<close>\<close>

text \<open>
  \<open>composio.tools.execute\<close> belongs to the SDK.  It is a parameter of the model: given
  the tool slug and the \<open>{ userId, arguments }\<close> object it throws or returns a
  result object, and may change the SDK's state.
\<close>

type_synonym 'w sdk_execute = "string \<Rightarrow> obj \<Rightarrow> (obj, 'w) io"

definition executeTool ::
  "'w sdk_execute \<Rightarrow> string \<Rightarrow> string \<Rightarrow> obj \<Rightarrow> (jsval, 'w) io" where
  "executeTool execute toolSlug userId toolArguments w =
     (case execute toolSlug [(''userId'', JStr userId), (''arguments'', JObj toolArguments)] w of
        (Inl error, w') \<Rightarrow> (Inl error, w')
      | (Inr result, w') \<Rightarrow>
          if truthy (property result ''successful'') then (Inr (property result ''data''), w')
          else (Inl (new_Error (property result ''error'')), w'))"

section \<open>\<open>Promise.all\<close>\<close>

text \<open>
  \<open>Promise.all\<close> over promises that settle one after another.  \<open>outcomes ! i\<close> is how
  the \<open>i\<close>-th promise settles; the schedule lists the indices in the order in which
  they settle.  A fulfilment stores its value at the promise's own index; the first
  rejection to happen rejects the whole.  When the schedule ends with every slot
  filled the result is the array of values; with an empty slot it stays pending.
\<close>

datatype 'a promise_state = Fulfilled 'a | Rejected js_error | Pending

fun settle_all :: "nat list \<Rightarrow> (js_error + 'a) list \<Rightarrow> 'a option list \<Rightarrow> js_error + 'a option list" where
  "settle_all [] outcomes slots = Inr slots"
| "settle_all (i # schedule) outcomes slots =
     (if i < length outcomes then
        (case outcomes ! i of
           Inl e \<Rightarrow> Inl e
         | Inr v \<Rightarrow> settle_all schedule outcomes (slots[i := Some v]))
      else settle_all schedule outcomes slots)"

definition Promise_all :: "nat list \<Rightarrow> (js_error + 'a) list \<Rightarrow> 'a list promise_state" where
  "Promise_all schedule outcomes =
     (case settle_all schedule outcomes (replicate (length outcomes) None) of
        Inl e \<Rightarrow> Rejected e
      | Inr slots \<Rightarrow> if list_all (\<lambda>s. s \<noteq> None) slots then Fulfilled (map the slots) else Pending)"

section \<open>\<open>GoogleWorkspaceAgent\<close>\<close>

record agent =
  userId :: string
  connectedServices :: "string set"

text \<open>
  Object spread \<open>{ ...base, ...options }\<close>: every property of \<open>options\<close> is
  assigned in turn, replacing the value of a key that exists and appending a new key.
  Spreading \<open>undefined\<close> adds nothing.
\<close>

fun obj_put :: "string \<Rightarrow> jsval \<Rightarrow> obj \<Rightarrow> obj" where
  "obj_put k v [] = [(k, v)]"
| "obj_put k v ((k', v') # ob) = (if k' = k then (k, v) # ob else (k', v') # obj_put k v ob)"

definition spread :: "obj \<Rightarrow> obj option \<Rightarrow> obj" where
  "spread base options =
     (case options of None \<Rightarrow> base | Some ob \<Rightarrow> fold (\<lambda>(k, v) acc. obj_put k v acc) ob base)"

definition of_optional_string :: "string option \<Rightarrow> jsval" where
  "of_optional_string s = (case s of None \<Rightarrow> JUndefined | Some t \<Rightarrow> JStr t)"

definition sendEmail ::
  "'w sdk_execute \<Rightarrow> agent \<Rightarrow> string \<Rightarrow> string \<Rightarrow> string \<Rightarrow> obj option \<Rightarrow> (jsval, 'w) io" where
  "sendEmail execute this to subject body options w =
     (if ''gmail'' \<notin> connectedServices this
      then (Inl (Error ''Gmail not connected. Please authenticate first.''), w)
      else
        let emailData =
              spread [(''to'', JStr to), (''subject'', JStr subject), (''body'', JStr body)] options
        in executeTool execute ''GMAIL_SEND_EMAIL'' (userId this) emailData w)"

record calendar_event =
  title :: string
  start :: string
  end_time :: string
  description :: "string option"
  attendees :: "string list option"
  location :: "string option"

definition createCalendarEvent ::
  "'w sdk_execute \<Rightarrow> agent \<Rightarrow> calendar_event \<Rightarrow> (jsval, 'w) io" where
  "createCalendarEvent execute this event w =
     (if ''googlecalendar'' \<notin> connectedServices this
      then (Inl (Error ''Google Calendar not connected. Please authenticate first.''), w)
      else
        executeTool execute ''GOOGLECALENDAR_CREATE_EVENT'' (userId this)
          [(''summary'', JStr (title event)),
           (''start'', JObj [(''dateTime'', JStr (start event))]),
           (''end'', JObj [(''dateTime'', JStr (end_time event))]),
           (''description'', of_optional_string (description event)),
           (''attendees'',
              case attendees event of
                None \<Rightarrow> JUndefined
              | Some emails \<Rightarrow> JArr (map (\<lambda>email. JObj [(''email'', JStr email)]) emails)),
           (''location'', of_optional_string (location event))] w)"

definition uploadToDrive ::
  "'w sdk_execute \<Rightarrow> agent \<Rightarrow> string \<Rightarrow> string \<Rightarrow> string option \<Rightarrow> (jsval, 'w) io" where
  "uploadToDrive execute this filename content parentFolderId w =
     (if ''googledrive'' \<notin> connectedServices this
      then (Inl (Error ''Google Drive not connected. Please authenticate first.''), w)
      else
        let uploadParams =
              [(''name'', JStr filename),
               (''content'', JStr content),
               (''parents'',
                  if truthy (of_optional_string parentFolderId)
                  then JArr [of_optional_string parentFolderId] else JUndefined)]
        in executeTool execute ''GOOGLEDRIVE_UPLOAD_FILE'' (userId this) uploadParams w)"

text \<open>
  The meeting passed to \<open>scheduleMeetingWithInvites\<close>.  Its \<open>attendees\<close> are
  required and it has an \<open>agenda\<close> in place of a \<open>description\<close>; the same object
  is handed to \<open>createCalendarEvent\<close>, which reads no \<open>description\<close> from it.
\<close>

record meeting =
  meeting_title :: string
  meeting_start :: string
  meeting_end :: string
  meeting_attendees :: "string list"
  meeting_agenda :: "string option"
  meeting_location :: "string option"

definition meeting_as_event :: "meeting \<Rightarrow> calendar_event" where
  "meeting_as_event m =
     \<lparr>title = meeting_title m, start = meeting_start m, end_time = meeting_end m,
      description = None, attendees = Some (meeting_attendees m),
      location = meeting_location m\<rparr>"

text \<open>
  The invitation text, after \<open>.trim()\<close> has removed the line break that opens the
  template literal and the blanks that close it.  \<open>toLocaleString\<close> stands for
  \<open>new Date(s).toLocaleString()\<close>, which depends on the host's locale.  The three
  pictographs of the template are written as their UTF-8 bytes.
\<close>

definition emailBody :: "(string \<Rightarrow> string) \<Rightarrow> meeting \<Rightarrow> string" where
  "emailBody toLocaleString m =
     ''Hi,'' @ [CHR 10, CHR 10] @
     ''You're invited to '' @ [CHR 0x22] @ meeting_title m @ [CHR 0x22] @ [CHR 10, CHR 10] @
     [CHR 0xF0, CHR 0x9F, CHR 0x93, CHR 0x85] @ '' When: '' @
       toLocaleString (meeting_start m) @ '' - '' @ toLocaleString (meeting_end m) @ [CHR 10] @
     [CHR 0xF0, CHR 0x9F, CHR 0x93, CHR 0x8D] @ '' Where: '' @
       (case meeting_location m of
          None \<Rightarrow> ''Online''
        | Some l \<Rightarrow> if l = [] then ''Online'' else l) @ [CHR 10, CHR 10] @
     (case meeting_agenda m of
        None \<Rightarrow> []
      | Some a \<Rightarrow>
          if a = [] then []
          else [CHR 0xF0, CHR 0x9F, CHR 0x93, CHR 0x8B] @ '' Agenda:'' @ [CHR 10] @ a) @
     [CHR 10, CHR 10] @
     ''Please confirm your attendance.'' @ [CHR 10, CHR 10] @
     ''Best regards''"

text \<open>
  \<open>meeting.attendees.map(async attendee => ...)\<close> starts the calls in list order.
  Each call runs up to its result here, since the SDK answers a call from the state it
  finds; the order in which the answers arrive is the schedule of \<open>Promise_all\<close>.
\<close>

fun start_all :: "('a, 'w) io list \<Rightarrow> 'w \<Rightarrow> (js_error + 'a) list \<times> 'w" where
  "start_all [] w = ([], w)"
| "start_all (m # ms) w =
     (case m w of (r, w') \<Rightarrow> (case start_all ms w' of (rs, w'') \<Rightarrow> (r # rs, w'')))"

definition emailPromises ::
  "'w sdk_execute \<Rightarrow> (string \<Rightarrow> string) \<Rightarrow> agent \<Rightarrow> meeting \<Rightarrow> (jsval, 'w) io list" where
  "emailPromises execute toLocaleString this m =
     map (\<lambda>attendee.
            sendEmail execute this attendee (''Meeting Invite: '' @ meeting_title m)
              (emailBody toLocaleString m) None)
         (meeting_attendees m)"

definition scheduleMeetingWithInvites ::
  "'w sdk_execute \<Rightarrow> (string \<Rightarrow> string) \<Rightarrow> nat list \<Rightarrow> agent \<Rightarrow> meeting \<Rightarrow>
     'w \<Rightarrow> jsval promise_state \<times> 'w" where
  "scheduleMeetingWithInvites execute toLocaleString schedule this m w =
     (case createCalendarEvent execute this (meeting_as_event m) w of
        (Inl e, w1) \<Rightarrow> (Rejected e, w1)
      | (Inr event, w1) \<Rightarrow>
          (case start_all (emailPromises execute toLocaleString this m) w1 of
             (settled, w2) \<Rightarrow>
               (case Promise_all schedule settled of
                  Rejected e \<Rightarrow> (Rejected e, w2)
                | Pending \<Rightarrow> (Pending, w2)
                | Fulfilled emailsSent \<Rightarrow>
                    (Fulfilled (JObj [(''event'', event), (''emailsSent'', JArr emailsSent)]), w2))))"

section \<open>\<open>GoogleWorkspaceMCP\<close>\<close>

subsection \<open>\<open>searchGmailMessages\<close>\<close>




subsection \<open>Registration of the custom tools\<close>

text \<open>
  \<open>composio.tools.createCustomTool\<close> belongs to the SDK and is a parameter: it
  receives a tool definition, throws or returns, and may change the SDK's registry
  \<open>'r\<close>.  Of each definition the model keeps the \<open>slug\<close> and the \<open>name\<close>.  Each
  \<open>create...CustomTools\<close> method awaits its registrations one after the other, so
  the first one that throws ends the method.
\<close>

record custom_tool =
  slug :: string
  name :: string

type_synonym 'r createCustomTool = "custom_tool \<Rightarrow> (unit, 'r) io"

fun create_each :: "'r createCustomTool \<Rightarrow> custom_tool list \<Rightarrow> (unit, 'r) io" where
  "create_each create [] r = (Inr (), r)"
| "create_each create (t # ts) r =
     (case create t r of
        (Inl e, r') \<Rightarrow> (Inl e, r')
      | (Inr u, r') \<Rightarrow> create_each create ts r')"

definition Gmail_tools :: "custom_tool list" where
  "Gmail_tools =
     [\<lparr>slug = ''GMAIL_GET_MESSAGES_CONTENT_BATCH'', name = ''Get Gmail Messages Content Batch''\<rparr>,
      \<lparr>slug = ''GMAIL_GET_THREADS_CONTENT_BATCH'', name = ''Get Gmail Threads Content Batch''\<rparr>,
      \<lparr>slug = ''GMAIL_DRAFT_MESSAGE'', name = ''Draft Gmail Message''\<rparr>,
      \<lparr>slug = ''GMAIL_BATCH_MODIFY_LABELS'', name = ''Batch Modify Gmail Message Labels''\<rparr>,
      \<lparr>slug = ''GMAIL_CREATE_LABEL'', name = ''Create Gmail Label''\<rparr>,
      \<lparr>slug = ''GMAIL_SEARCH_MESSAGES_FILTERS'', name = ''Search Gmail Messages with Filters''\<rparr>,
      \<lparr>slug = ''GMAIL_GET_MESSAGE_RAW'', name = ''Get Gmail Message Raw''\<rparr>,
      \<lparr>slug = ''GMAIL_BATCH_DELETE_MESSAGES'', name = ''Batch Delete Gmail Messages''\<rparr>,
      \<lparr>slug = ''GMAIL_GET_USER_PROFILE'', name = ''Get Gmail User Profile''\<rparr>,
      \<lparr>slug = ''GMAIL_WATCH_MAILBOX'', name = ''Watch Gmail Mailbox''\<rparr>,
      \<lparr>slug = ''GMAIL_GET_ATTACHMENT'', name = ''Get Gmail Attachment''\<rparr>,
      \<lparr>slug = ''GMAIL_BATCH_ARCHIVE_MESSAGES'', name = ''Batch Archive Gmail Messages''\<rparr>,
      \<lparr>slug = ''GMAIL_GET_HISTORY'', name = ''Get Gmail History''\<rparr>,
      \<lparr>slug = ''GMAIL_STOP_WATCH'', name = ''Stop Gmail Watch''\<rparr>]"

definition createGmailCustomTools :: "'r createCustomTool \<Rightarrow> (unit, 'r) io" where
  "createGmailCustomTools create = create_each create Gmail_tools"

definition Calendar_tools :: "custom_tool list" where
  "Calendar_tools =
     [\<lparr>slug = ''CALENDAR_LIST_EVENTS_FILTERS'', name = ''List Calendar Events with Filters''\<rparr>,
      \<lparr>slug = ''CALENDAR_GET_EVENT'', name = ''Get Calendar Event Details''\<rparr>,
      \<lparr>slug = ''CALENDAR_UPDATE_EVENT'', name = ''Update Calendar Event''\<rparr>,
      \<lparr>slug = ''CALENDAR_DELETE_EVENT'', name = ''Delete Calendar Event''\<rparr>,
      \<lparr>slug = ''CALENDAR_LIST_CALENDARS'', name = ''List User Calendars''\<rparr>]"

definition createCalendarCustomTools :: "'r createCustomTool \<Rightarrow> (unit, 'r) io" where
  "createCalendarCustomTools create = create_each create Calendar_tools"

definition Drive_tools :: "custom_tool list" where
  "Drive_tools =
     [\<lparr>slug = ''DRIVE_SEARCH_FILES_FILTERS'', name = ''Search Drive Files with Filters''\<rparr>,
      \<lparr>slug = ''DRIVE_GET_FILE_CONTENT'', name = ''Get Drive File Content''\<rparr>,
      \<lparr>slug = ''DRIVE_UPLOAD_FILE'', name = ''Upload File to Drive''\<rparr>,
      \<lparr>slug = ''DRIVE_CREATE_FOLDER'', name = ''Create Drive Folder''\<rparr>,
      \<lparr>slug = ''DRIVE_COPY_FILE'', name = ''Copy Drive File''\<rparr>,
      \<lparr>slug = ''DRIVE_BATCH_GET_METADATA'', name = ''Batch Get Drive File Metadata''\<rparr>]"

definition createDriveCustomTools :: "'r createCustomTool \<Rightarrow> (unit, 'r) io" where
  "createDriveCustomTools create = create_each create Drive_tools"

definition Docs_tools :: "custom_tool list" where
  "Docs_tools =
     [\<lparr>slug = ''DOCS_GET_CONTENT_STRUCTURE'', name = ''Get Document Content with Structure''\<rparr>,
      \<lparr>slug = ''DOCS_BATCH_UPDATE_CONTENT'', name = ''Batch Update Document Content''\<rparr>,
      \<lparr>slug = ''DOCS_INSERT_IMAGE'', name = ''Insert Image into Document''\<rparr>,
      \<lparr>slug = ''DOCS_CREATE_FROM_TEMPLATE'', name = ''Create Document from Template''\<rparr>,
      \<lparr>slug = ''DOCS_REPLACE_TEXT'', name = ''Replace Text in Document''\<rparr>,
      \<lparr>slug = ''DOCS_GET_SUGGESTIONS'', name = ''Get Document Suggestions''\<rparr>,
      \<lparr>slug = ''DOCS_APPLY_FORMATTING'', name = ''Apply Document Formatting''\<rparr>,
      \<lparr>slug = ''DOCS_INSERT_TABLE'', name = ''Insert Table into Document''\<rparr>,
      \<lparr>slug = ''DOCS_GET_REVISION_HISTORY'', name = ''Get Document Revision History''\<rparr>,
      \<lparr>slug = ''DOCS_EXPORT_DOCUMENT'', name = ''Export Document to Format''\<rparr>,
      \<lparr>slug = ''DOCS_INSERT_PAGE_BREAK'', name = ''Insert Page Break''\<rparr>,
      \<lparr>slug = ''DOCS_BATCH_GET_METADATA'', name = ''Batch Get Document Metadata''\<rparr>,
      \<lparr>slug = ''DOCS_CREATE_NAMED_RANGE'', name = ''Create Named Range in Document''\<rparr>,
      \<lparr>slug = ''DOCS_GET_OUTLINE'', name = ''Get Document Outline''\<rparr>]"

definition createDocsCustomTools :: "'r createCustomTool \<Rightarrow> (unit, 'r) io" where
  "createDocsCustomTools create = create_each create Docs_tools"

definition Sheets_tools :: "custom_tool list" where
  "Sheets_tools =
     [\<lparr>slug = ''SHEETS_LIST_SPREADSHEETS'', name = ''List Spreadsheets''\<rparr>,
      \<lparr>slug = ''SHEETS_GET_SPREADSHEET_INFO'', name = ''Get Spreadsheet Info''\<rparr>,
      \<lparr>slug = ''SHEETS_READ_SHEET_VALUES'', name = ''Read Sheet Values''\<rparr>,
      \<lparr>slug = ''SHEETS_MODIFY_SHEET_VALUES'', name = ''Modify Sheet Values''\<rparr>,
      \<lparr>slug = ''SHEETS_CREATE_SPREADSHEET'', name = ''Create Spreadsheet''\<rparr>,
      \<lparr>slug = ''SHEETS_CREATE_SHEET'', name = ''Create Sheet''\<rparr>]"

definition createSheetsCustomTools :: "'r createCustomTool \<Rightarrow> (unit, 'r) io" where
  "createSheetsCustomTools create = create_each create Sheets_tools"

definition Slides_tools :: "custom_tool list" where
  "Slides_tools =
     [\<lparr>slug = ''SLIDES_CREATE_PRESENTATION'', name = ''Create Presentation''\<rparr>,
      \<lparr>slug = ''SLIDES_GET_PRESENTATION'', name = ''Get Presentation''\<rparr>,
      \<lparr>slug = ''SLIDES_BATCH_UPDATE_PRESENTATION'', name = ''Batch Update Presentation''\<rparr>,
      \<lparr>slug = ''SLIDES_GET_PAGE'', name = ''Get Page''\<rparr>,
      \<lparr>slug = ''SLIDES_GET_PAGE_THUMBNAIL'', name = ''Get Page Thumbnail''\<rparr>]"

definition createSlidesCustomTools :: "'r createCustomTool \<Rightarrow> (unit, 'r) io" where
  "createSlidesCustomTools create = create_each create Slides_tools"

definition Forms_tools :: "custom_tool list" where
  "Forms_tools =
     [\<lparr>slug = ''FORMS_CREATE_FORM'', name = ''Create Form''\<rparr>,
      \<lparr>slug = ''FORMS_GET_FORM'', name = ''Get Form''\<rparr>,
      \<lparr>slug = ''FORMS_SET_PUBLISH_SETTINGS'', name = ''Set Publish Settings''\<rparr>,
      \<lparr>slug = ''FORMS_GET_FORM_RESPONSE'', name = ''Get Form Response''\<rparr>,
      \<lparr>slug = ''FORMS_LIST_FORM_RESPONSES'', name = ''List Form Responses''\<rparr>]"

definition createFormsCustomTools :: "'r createCustomTool \<Rightarrow> (unit, 'r) io" where
  "createFormsCustomTools create = create_each create Forms_tools"

definition Chat_tools :: "custom_tool list" where
  "Chat_tools =
     [\<lparr>slug = ''CHAT_LIST_SPACES'', name = ''List Spaces''\<rparr>,
      \<lparr>slug = ''CHAT_GET_MESSAGES'', name = ''Get Messages''\<rparr>,
      \<lparr>slug = ''CHAT_SEND_MESSAGE'', name = ''Send Message''\<rparr>,
      \<lparr>slug = ''CHAT_SEARCH_MESSAGES'', name = ''Search Messages''\<rparr>]"

definition createChatCustomTools :: "'r createCustomTool \<Rightarrow> (unit, 'r) io" where
  "createChatCustomTools create = create_each create Chat_tools"

definition Search_tools :: "custom_tool list" where
  "Search_tools =
     [\<lparr>slug = ''SEARCH_CUSTOM'', name = ''Search Custom''\<rparr>,
      \<lparr>slug = ''SEARCH_GET_SEARCH_ENGINE_INFO'', name = ''Get Search Engine Info''\<rparr>,
      \<lparr>slug = ''SEARCH_CUSTOM_SITERESTRICT'', name = ''Search Custom Site Restrict''\<rparr>]"

definition createSearchCustomTools :: "'r createCustomTool \<Rightarrow> (unit, 'r) io" where
  "createSearchCustomTools create = create_each create Search_tools"

definition Tasks_tools :: "custom_tool list" where
  "Tasks_tools =
     [\<lparr>slug = ''TASKS_LIST_TASK_LISTS'', name = ''List Task Lists''\<rparr>,
      \<lparr>slug = ''TASKS_GET_TASK_LIST'', name = ''Get Task List''\<rparr>,
      \<lparr>slug = ''TASKS_CREATE_TASK_LIST'', name = ''Create Task List''\<rparr>,
      \<lparr>slug = ''TASKS_UPDATE_TASK_LIST'', name = ''Update Task List''\<rparr>,
      \<lparr>slug = ''TASKS_DELETE_TASK_LIST'', name = ''Delete Task List''\<rparr>,
      \<lparr>slug = ''TASKS_LIST_TASKS'', name = ''List Tasks''\<rparr>,
      \<lparr>slug = ''TASKS_GET_TASK'', name = ''Get Task''\<rparr>,
      \<lparr>slug = ''TASKS_CREATE_TASK'', name = ''Create Task''\<rparr>,
      \<lparr>slug = ''TASKS_UPDATE_TASK'', name = ''Update Task''\<rparr>,
      \<lparr>slug = ''TASKS_DELETE_TASK'', name = ''Delete Task''\<rparr>,
      \<lparr>slug = ''TASKS_MOVE_TASK'', name = ''Move Task''\<rparr>,
      \<lparr>slug = ''TASKS_CLEAR_COMPLETED_TASKS'', name = ''Clear Completed Tasks''\<rparr>]"

definition createTasksCustomTools :: "'r createCustomTool \<Rightarrow> (unit, 'r) io" where
  "createTasksCustomTools create = create_each create Tasks_tools"

definition Comment_tools :: "custom_tool list" where
  "Comment_tools =
     [\<lparr>slug = ''DOCS_READ_COMMENTS'', name = ''Read Document Comments''\<rparr>,
      \<lparr>slug = ''DOCS_CREATE_COMMENT'', name = ''Create Document Comment''\<rparr>,
      \<lparr>slug = ''DOCS_REPLY_COMMENT'', name = ''Reply to Document Comment''\<rparr>,
      \<lparr>slug = ''DOCS_RESOLVE_COMMENT'', name = ''Resolve Document Comment''\<rparr>,
      \<lparr>slug = ''SHEETS_READ_COMMENTS'', name = ''Read Spreadsheet Comments''\<rparr>,
      \<lparr>slug = ''SHEETS_CREATE_COMMENT'', name = ''Create Spreadsheet Comment''\<rparr>,
      \<lparr>slug = ''SHEETS_REPLY_COMMENT'', name = ''Reply to Spreadsheet Comment''\<rparr>,
      \<lparr>slug = ''SHEETS_RESOLVE_COMMENT'', name = ''Resolve Spreadsheet Comment''\<rparr>,
      \<lparr>slug = ''SLIDES_READ_COMMENTS'', name = ''Read Presentation Comments''\<rparr>,
      \<lparr>slug = ''SLIDES_CREATE_COMMENT'', name = ''Create Presentation Comment''\<rparr>,
      \<lparr>slug = ''SLIDES_REPLY_COMMENT'', name = ''Reply to Presentation Comment''\<rparr>,
      \<lparr>slug = ''SLIDES_RESOLVE_COMMENT'', name = ''Resolve Presentation Comment''\<rparr>]"

definition createCommentCustomTools :: "'r createCustomTool \<Rightarrow> (unit, 'r) io" where
  "createCommentCustomTools create = create_each create Comment_tools"

definition initializeCustomTools :: "'r createCustomTool \<Rightarrow> (unit, 'r) io" where
  "initializeCustomTools create =
     bind_io (createGmailCustomTools create) (\<lambda>_.
     bind_io (createCalendarCustomTools create) (\<lambda>_.
     bind_io (createDriveCustomTools create) (\<lambda>_.
     bind_io (createDocsCustomTools create) (\<lambda>_.
     bind_io (createSheetsCustomTools create) (\<lambda>_.
     bind_io (createSlidesCustomTools create) (\<lambda>_.
     bind_io (createFormsCustomTools create) (\<lambda>_.
     bind_io (createChatCustomTools create) (\<lambda>_.
     bind_io (createSearchCustomTools create) (\<lambda>_.
     bind_io (createTasksCustomTools create) (\<lambda>_.
     createCommentCustomTools create))))))))))"

text \<open>
  The registrations of a complete run of \<open>initializeCustomTools\<close>, in the order in
  which the eleven methods make them.
\<close>

definition all_custom_tools :: "custom_tool list" where
  "all_custom_tools =
     Gmail_tools @ Calendar_tools @ Drive_tools @ Docs_tools @ Sheets_tools @ Slides_tools @
     Forms_tools @ Chat_tools @ Search_tools @ Tasks_tools @ Comment_tools"

text \<open>
  Two registries to run the registration sequence against.  \<open>record_tool\<close> accepts
  every definition and keeps the list of what it was given.  \<open>counted\<close> wraps any
  \<open>createCustomTool\<close> and counts the calls made to it.
\<close>

definition record_tool :: "custom_tool list createCustomTool" where
  "record_tool t r = (Inr (), r @ [t])"

definition counted :: "'r createCustomTool \<Rightarrow> (nat \<times> 'r) createCustomTool" where
  "counted create t nr =
     (case nr of (n, r) \<Rightarrow> (case create t r of (x, r') \<Rightarrow> (x, (Suc n, r'))))"

text \<open>
  Modelled from the spec: the registry's \<open>register\<close> operation, which the SDK's
  \<open>createCustomTool\<close> stands for and whose code is not in the repository.  It adds a
  descriptor and fails with \<open>DuplicateIdentifier\<close> when the identifier is already
  present, leaving the registry as it was.
\<close>

definition register :: "custom_tool list createCustomTool" where
  "register t r =
     (if slug t \<in> set (map slug r)
      then (Inl (Error (''DuplicateIdentifier: '' @ slug t)), r)
      else (Inr (), r @ [t]))"

section \<open>\<open>GoogleWorkspaceService\<close>\<close>

text \<open>
  The service wrapper holds the readiness flag \<open>isReady\<close>, \<open>false\<close> in a new
  instance.  What the routes read from the process (the user id, the clock, the uptime,
  the memory usage, the project id) is given by \<open>process_env\<close>.
\<close>

record service =
  isReady :: bool

definition new_service :: service where
  "new_service = \<lparr>isReady = False\<rparr>"

record process_env =
  USER_ID :: string
  now :: string
  uptime :: jsval
  memoryUsage :: jsval
  COMPOSIO_PROJECT_ID :: jsval

definition health :: "process_env \<Rightarrow> service \<Rightarrow> obj" where
  "health env this =
     [(''status'', if isReady this then JStr ''ready'' else JStr ''initializing''),
      (''service'', JStr ''google-workspace-tools''),
      (''tools_count'', JNum 84),
      (''user_id'', JStr (USER_ID env)),
      (''timestamp'', JStr (now env)),
      (''uptime'', uptime env),
      (''memory'', memoryUsage env)]"

definition status :: "process_env \<Rightarrow> service \<Rightarrow> obj" where
  "status env this =
     [(''initialized'', JBool (isReady this)),
      (''tools_ready'', JBool (isReady this)),
      (''user_id'', JStr (USER_ID env)),
      (''composio_project'', COMPOSIO_PROJECT_ID env),
      (''start_time'', JStr (now env))]"

text \<open>
  \<open>initialize\<close> awaits \<open>initializeCustomTools\<close> and sets \<open>isReady\<close> only after it
  has returned; when it throws, the error is passed on and the flag is left as it was.
  The state of the SDK's registry travels with the service.
\<close>

definition initialize ::
  "'r createCustomTool \<Rightarrow> service \<times> 'r \<Rightarrow> (js_error + unit) \<times> (service \<times> 'r)" where
  "initialize create sr =
     (case sr of (this, r) \<Rightarrow>
        (case initializeCustomTools create r of
           (Inl error, r') \<Rightarrow> (Inl error, (this, r'))
         | (Inr u, r') \<Rightarrow> (Inr (), (this\<lparr>isReady := True\<rparr>, r'))))"

text \<open>
  What can happen to a running service: a call of \<open>initialize\<close> (with the behaviour
  the SDK shows during that call), a probe of \<open>/health\<close>, a probe of \<open>/status\<close>.
  \<open>serve\<close> answers a sequence of them in order.  A probe that arrives while
  \<open>initialize\<close> is still awaiting sees the flag as it was before the call, which is the
  state before the \<open>Initialize\<close> request here.  The \<open>/shutdown\<close> route ends the
  process; nothing is served after it.
\<close>

datatype 'r request =
    Initialize "'r createCustomTool"
  | Get_health process_env
  | Get_status process_env

datatype response =
    Initialized
  | Initialize_failed js_error
  | Health obj
  | Status obj

fun handle :: "'r request \<Rightarrow> service \<times> 'r \<Rightarrow> response \<times> (service \<times> 'r)" where
  "handle (Initialize create) sr =
     (case initialize create sr of
        (Inl e, sr') \<Rightarrow> (Initialize_failed e, sr')
      | (Inr u, sr') \<Rightarrow> (Initialized, sr'))"
| "handle (Get_health env) sr = (Health (health env (fst sr)), sr)"
| "handle (Get_status env) sr = (Status (status env (fst sr)), sr)"

fun serve :: "'r request list \<Rightarrow> service \<times> 'r \<Rightarrow> response list" where
  "serve [] sr = []"
| "serve (q # qs) sr = (case handle q sr of (a, sr') \<Rightarrow> a # serve qs sr')"

section \<open>The dispatcher of the specification\<close>

text \<open>
  The repository declares an input schema with each tool and leaves validation and
  dispatch to the SDK.  The definitions of this section follow the specification's
  description of that dispatcher; the schemas and executors they are applied to are
  those of the source.
\<close>

text \<open>
  Modelled from the spec: the input schema (data model, \<open>inputSchema\<close>).  Each field
  has a name, a type (string, number, boolean, list, nested object, enumeration), a
  required flag and an optional default value.  The repository's schemas are zod
  objects, built by a library that is not in the repository.
\<close>

datatype field_type =
    TString
  | TNumber
  | TBoolean
  | TList field_type
  | TObject "field_decl list"
  | TEnum "string list"
and field_decl =
    Field (field_name: string) (field_ty: field_type) (field_required: bool)
      (field_default: "jsval option")

text \<open>
  Modelled from the spec: whether a value has the type a field declares.  A nested
  object has the declared type when each of its declared fields is present with its
  type, or is absent and optional or defaulted.
\<close>

fun has_type :: "field_type \<Rightarrow> jsval \<Rightarrow> bool"
and fields_have_type :: "field_decl list \<Rightarrow> obj \<Rightarrow> bool" where
  "has_type TString v = (case v of JStr s \<Rightarrow> True | _ \<Rightarrow> False)"
| "has_type TNumber v = (case v of JNum n \<Rightarrow> True | _ \<Rightarrow> False)"
| "has_type TBoolean v = (case v of JBool b \<Rightarrow> True | _ \<Rightarrow> False)"
| "has_type (TList t) v = (case v of JArr xs \<Rightarrow> (\<forall>x \<in> set xs. has_type t x) | _ \<Rightarrow> False)"
| "has_type (TObject fs) v = (case v of JObj ob \<Rightarrow> fields_have_type fs ob | _ \<Rightarrow> False)"
| "has_type (TEnum names) v = (case v of JStr s \<Rightarrow> s \<in> set names | _ \<Rightarrow> False)"
| "fields_have_type [] ob = True"
| "fields_have_type (Field n t req d # fs) ob =
     ((if property ob n = JUndefined then \<not> req \<or> d \<noteq> None else has_type t (property ob n))
      \<and> fields_have_type fs ob)"

text \<open>
  Modelled from the spec: the error taxonomy of validation and dispatch, and the
  message an error is reported with.  The spec's example renders a missing field
  \<open>b\<close> as \<open>missing field: b\<close>.
\<close>

datatype dispatch_error =
    UnknownIdentifier string
  | MissingField string
  | TypeMismatch string field_type
  | UnknownField string

text \<open>Modelled from the spec: the name a \<open>TypeMismatch\<close> gives for the expected type.\<close>

fun type_name :: "field_type \<Rightarrow> string" where
  "type_name TString = ''string''"
| "type_name TNumber = ''number''"
| "type_name TBoolean = ''boolean''"
| "type_name (TList t) = ''list''"
| "type_name (TObject fs) = ''object''"
| "type_name (TEnum names) = ''enumeration''"

text \<open>Modelled from the spec: the human-readable message of an error.\<close>

fun render :: "dispatch_error \<Rightarrow> string" where
  "render (UnknownIdentifier i) = ''unknown identifier: '' @ i"
| "render (MissingField f) = ''missing field: '' @ f"
| "render (TypeMismatch f t) = ''type mismatch: '' @ f @ '' (expected '' @ type_name t @ '')''"
| "render (UnknownField f) = ''unknown field: '' @ f"

text \<open>
  Modelled from the spec: \<open>validate(descriptor, rawInput)\<close>.  For each field of the
  schema, in order: an omitted field takes its default when it has one, is reported as
  \<open>MissingField\<close> when it is required, and is left out otherwise; a supplied field of
  the wrong type is reported as \<open>TypeMismatch\<close>.  Every violation is reported.  Fields
  the schema does not declare are ignored in lenient mode (the default) and reported
  in strict mode.  The result is the list of violations, or the normalized input.
\<close>

fun check_fields :: "field_decl list \<Rightarrow> obj \<Rightarrow> dispatch_error list \<times> obj" where
  "check_fields [] raw = ([], [])"
| "check_fields (Field n t req d # fs) raw =
     (case check_fields fs raw of (errs, norm) \<Rightarrow>
        if property raw n = JUndefined then
          (case d of
             Some dv \<Rightarrow> (errs, (n, dv) # norm)
           | None \<Rightarrow> if req then (MissingField n # errs, norm) else (errs, norm))
        else if has_type t (property raw n) then (errs, (n, property raw n) # norm)
        else (TypeMismatch n t # errs, norm))"

text \<open>
  Modelled from the spec: the fields of the raw input that the schema does not declare,
  which strict mode rejects.
\<close>

definition unknown_fields :: "field_decl list \<Rightarrow> obj \<Rightarrow> dispatch_error list" where
  "unknown_fields schema raw =
     map UnknownField (filter (\<lambda>k. k \<notin> set (map field_name schema)) (map fst raw))"

text \<open>
  Modelled from the spec: \<open>validate\<close> itself, the violations of the declared fields
  followed, in strict mode, by the undeclared fields.
\<close>

definition validate :: "bool \<Rightarrow> field_decl list \<Rightarrow> obj \<Rightarrow> dispatch_error list + obj" where
  "validate strict schema raw =
     (case check_fields schema raw of (errs, norm) \<Rightarrow>
        let all_errs = errs @ (if strict then unknown_fields schema raw else [])
        in if all_errs = [] then Inr norm else Inl all_errs)"

text \<open>
  Modelled from the spec: the capability descriptor, the invocation request and the
  result envelope of the data model.  The executor receives the validated input and the
  execution context; \<open>'w\<close> is whatever state its side effects reach.
\<close>

record ('c, 'r, 'w) descriptor =
  descriptor_identifier :: string
  displayName :: string
  descriptor_description :: string
  inputSchema :: "field_decl list"
  executor :: "obj \<Rightarrow> 'c \<Rightarrow> ('r, 'w) io"

text \<open>Modelled from the spec: the invocation request, an identifier and a raw input.\<close>

record invocation_request =
  request_identifier :: string
  rawInput :: obj

text \<open>
  Modelled from the spec: the result envelope; \<open>data\<close> is present only in a
  success and \<open>errorMessage\<close> only in a failure.
\<close>

record 'r invocation_result =
  succeeded :: bool
  data :: "'r option"
  errorMessage :: "string option"

text \<open>Modelled from the spec: the envelope of a failure with the given message.\<close>

definition failed :: "string \<Rightarrow> 'r invocation_result" where
  "failed msg = \<lparr>succeeded = False, data = None, errorMessage = Some msg\<rparr>"

text \<open>Modelled from the spec: the message of a thrown failure.\<close>

fun message :: "js_error \<Rightarrow> string" where
  "message (Error m) = m"
| "message (TypeError m) = m"

text \<open>
  Modelled from the spec: \<open>dispatch(request)\<close>.  It resolves the descriptor by the
  request's identifier, validates the input, invokes the executor with the normalized
  input and the context, and wraps what the executor returns or throws.  Lookup and
  validation failures are reported in the result without invoking the executor.
\<close>

definition dispatch ::
  "bool \<Rightarrow> ('c, 'r, 'w) descriptor list \<Rightarrow> 'c \<Rightarrow> invocation_request \<Rightarrow>
     'w \<Rightarrow> 'r invocation_result \<times> 'w" where
  "dispatch strict registry ctx request w =
     (case find (\<lambda>d. descriptor_identifier d = request_identifier request) registry of
        None \<Rightarrow> (failed (render (UnknownIdentifier (request_identifier request))), w)
      | Some d \<Rightarrow>
          (case validate strict (inputSchema d) (rawInput request) of
             Inl errs \<Rightarrow> (failed (join_with ''; '' (map render errs)), w)
           | Inr input \<Rightarrow>
               (case executor d input ctx w of
                  (Inl e, w') \<Rightarrow> (failed (message e), w')
                | (Inr r, w') \<Rightarrow>
                    (\<lparr>succeeded = True, data = Some r, errorMessage = None\<rparr>, w'))))"

text \<open>
  The descriptor of \<open>GMAIL_BATCH_DELETE_MESSAGES\<close>: the schema
  \<open>z.object({ message_ids: z.array(z.string()), user_google_email: z.string() })\<close> of
  \<open>index.ts\<close>, neither field optional or defaulted, and the executor of the source.
  The state counts the executor's invocations.
\<close>

definition GMAIL_BATCH_DELETE_MESSAGES_inputParams :: "field_decl list" where
  "GMAIL_BATCH_DELETE_MESSAGES_inputParams =
     [Field ''message_ids'' (TList TString) True None,
      Field ''user_google_email'' TString True None]"

definition GMAIL_BATCH_DELETE_MESSAGES :: "(unit, obj, nat) descriptor" where
  "GMAIL_BATCH_DELETE_MESSAGES =
     \<lparr>descriptor_identifier = ''GMAIL_BATCH_DELETE_MESSAGES'',
      displayName = ''Batch Delete Gmail Messages'',
      descriptor_description = ''Permanently delete multiple Gmail messages by their IDs'',
      inputSchema = GMAIL_BATCH_DELETE_MESSAGES_inputParams,
      executor = (\<lambda>input connectionConfig n.
                    (GMAIL_BATCH_DELETE_MESSAGES_execute input, Suc n))\<rparr>"

section \<open>Notions the claims are stated with\<close>

text \<open>
  A field of a result object is populated when it holds a value other than
  \<open>undefined\<close> and \<open>null\<close>.  The result envelope of the specification has the fields
  \<open>succeeded\<close>, \<open>data\<close> and \<open>errorMessage\<close>; the objects of the source name them
  \<open>successful\<close>, \<open>data\<close> and \<open>error\<close>.  The envelope invariant: either \<open>data\<close>
  alone is populated and the flag is \<open>true\<close>, or the error alone is populated and
  the flag is \<open>false\<close>.
\<close>

definition populated :: "jsval \<Rightarrow> bool" where
  "populated v = (v \<noteq> JUndefined \<and> v \<noteq> JNull)"

definition envelope_invariant :: "obj \<Rightarrow> bool" where
  "envelope_invariant r =
     ((populated (property r ''data'') \<and> \<not> populated (property r ''error'') \<and>
         property r ''successful'' = JBool True) \<or>
      (populated (property r ''error'') \<and> \<not> populated (property r ''data'') \<and>
         property r ''successful'' = JBool False))"

text \<open>
  An in-band failure, as the specification describes the outcome of dispatching a
  capability whose executor fails: the operation returns (it does not throw) a result
  whose flag is \<open>false\<close> and whose error message is the failure's message.
\<close>

definition in_band_failure :: "js_error + jsval \<Rightarrow> string \<Rightarrow> bool" where
  "in_band_failure outcome msg =
     (case outcome of
        Inl thrown \<Rightarrow> False
      | Inr result \<Rightarrow>
          (sel result ''succeeded'' = JBool False \<and> sel result ''errorMessage'' = JStr msg) \<or>
          (sel result ''successful'' = JBool False \<and> sel result ''error'' = JStr msg))"


section \<open>Concrete inputs\<close>

text \<open>
  Inputs on which the theorems below are instantiated: three behaviours of the SDK's
  \<open>execute\<close>, each counting the calls it receives, an agent, a meeting, a process
  environment, and collaborators of \<open>searchGmailMessages\<close> that keep every request
  handed to \<open>messages.create\<close>.
\<close>

definition echo_sdk :: "nat sdk_execute" where
  "echo_sdk toolSlug request n =
     (Inr [(''successful'', JBool True),
           (''data'', JObj [(''tool'', JStr toolSlug),
                            (''to'', sel (property request ''arguments'') ''to'')]),
           (''error'', JNull)], Suc n)"

definition refusing_sdk :: "string \<Rightarrow> nat sdk_execute" where
  "refusing_sdk address toolSlug request n =
     (if sel (property request ''arguments'') ''to'' = JStr address
      then Inr [(''successful'', JBool False), (''data'', JNull),
                (''error'', JStr ''quota exceeded'')]
      else Inr [(''successful'', JBool True),
                (''data'', JObj [(''tool'', JStr toolSlug),
                                 (''to'', sel (property request ''arguments'') ''to'')]),
                (''error'', JNull)], Suc n)"

definition throwing_sdk :: "nat sdk_execute" where
  "throwing_sdk toolSlug request n = (Inl (Error ''boom''), Suc n)"

definition example_agent :: agent where
  "example_agent = \<lparr>userId = ''default'', connectedServices = {''gmail'', ''googlecalendar''}\<rparr>"

definition example_meeting :: meeting where
  "example_meeting =
     \<lparr>meeting_title = ''Sync'', meeting_start = ''2024-01-15T14:00:00Z'',
      meeting_end = ''2024-01-15T15:00:00Z'',
      meeting_attendees = [''a@x.org'', ''b@x.org'', ''c@x.org''],
      meeting_agenda = None, meeting_location = None\<rparr>"

definition example_env :: process_env where
  "example_env =
     \<lparr>USER_ID = ''user@example.com'', now = ''2024-01-15T14:00:00.000Z'', uptime = JNum 12,
      memoryUsage = JObj [], COMPOSIO_PROJECT_ID = JUndefined\<rparr>"


section \<open>Lemmas about the model\<close>

lemma property_Nil [simp]: "property [] k = JUndefined"
  by (simp add: property_def)

lemma property_Cons [simp]:
  "property ((k', v) # ob) k = (if k' = k then v else property ob k)"
  by (simp add: property_def)

lemma property_omitted: "k \<notin> fst ` set ob \<Longrightarrow> property ob k = JUndefined"
proof -
  assume "k \<notin> fst ` set ob"
  then have "map_of ob k = None" by (simp add: map_of_eq_None_iff)
  then show ?thesis by (simp add: property_def)
qed


subsection \<open>\<open>Promise.all\<close>\<close>

lemma settle_all_rejects:
  "i \<in> set schedule \<Longrightarrow> i < length outcomes \<Longrightarrow> outcomes ! i = Inl e \<Longrightarrow>
   \<exists>e'. settle_all schedule outcomes slots = Inl e' \<and> Inl e' \<in> set outcomes"
proof (induction schedule arbitrary: slots)
  case Nil
  then show ?case by simp
next
  case (Cons j schedule)
  show ?case
  proof (cases "j < length outcomes")
    case False
    with Cons show ?thesis by auto
  next
    case True
    show ?thesis
    proof (cases "outcomes ! j")
      case (Inl e1)
      with True have "Inl e1 \<in> set outcomes" by (metis nth_mem)
      with True Inl show ?thesis by simp
    next
      case (Inr v)
      with Cons.prems have "i \<in> set schedule" by auto
      from Cons.IH [OF this Cons.prems(2,3)] True Inr show ?thesis by simp
    qed
  qed
qed

lemma Promise_all_rejects:
  assumes "set schedule = {..<length outcomes}" and "Inl e \<in> set outcomes"
  shows "\<exists>e'. Promise_all schedule outcomes = Rejected e' \<and> Inl e' \<in> set outcomes"
proof -
  from assms(2) obtain i where i: "i < length outcomes" "outcomes ! i = Inl e"
    by (auto simp: in_set_conv_nth)
  with assms(1) have "i \<in> set schedule" by simp
  from settle_all_rejects [OF this i] obtain e' where
    "settle_all schedule outcomes (replicate (length outcomes) None) = Inl e'"
    "Inl e' \<in> set outcomes"
    by blast
  then show ?thesis by (simp add: Promise_all_def)
qed

lemma settle_all_fulfils:
  "length slots = length vs \<Longrightarrow>
   settle_all schedule (map Inr vs) slots =
     Inr (map (\<lambda>i. if i \<in> set schedule then Some (vs ! i) else slots ! i) [0..<length vs])"
proof (induction schedule arbitrary: slots)
  case Nil
  have "map ((!) slots) [0..<length slots] = slots" by (rule map_nth)
  with Nil show ?case by simp
next
  case (Cons j schedule)
  show ?case
  proof (cases "j < length vs")
    case False
    have "map (\<lambda>i. if i \<in> set (j # schedule) then Some (vs ! i) else slots ! i) [0..<length vs]
        = map (\<lambda>i. if i \<in> set schedule then Some (vs ! i) else slots ! i) [0..<length vs]"
      using False by (intro map_cong [OF refl]) simp
    with False Cons.IH [OF Cons.prems] show ?thesis by simp
  next
    case True
    let ?slots = "slots[j := Some (vs ! j)]"
    have len: "length ?slots = length vs"
      using Cons.prems by simp
    have "map (\<lambda>i. if i \<in> set (j # schedule) then Some (vs ! i) else slots ! i) [0..<length vs]
        = map (\<lambda>i. if i \<in> set schedule then Some (vs ! i) else ?slots ! i) [0..<length vs]"
    proof (intro map_cong [OF refl])
      fix i assume "i \<in> set [0..<length vs]"
      then have "i < length slots" using Cons.prems by simp
      then show "(if i \<in> set (j # schedule) then Some (vs ! i) else slots ! i) =
                 (if i \<in> set schedule then Some (vs ! i) else ?slots ! i)"
        by (cases "i = j") simp_all
    qed
    with True Cons.IH [OF len] show ?thesis by simp
  qed
qed

lemma Promise_all_fulfils:
  assumes "set schedule = {..<length vs}"
  shows "Promise_all schedule (map Inr vs) = Fulfilled vs"
proof -
  let ?none = "replicate (length vs) (None :: 'a option)"
  have "map (\<lambda>i. if i \<in> set schedule then Some (vs ! i) else ?none ! i) [0..<length vs]
          = map (\<lambda>i. Some (vs ! i)) [0..<length vs]"
    using assms by (intro map_cong [OF refl]) simp
  also have "\<dots> = map Some (map ((!) vs) [0..<length vs])"
    by simp
  also have "\<dots> = map Some vs"
    by (simp only: map_nth)
  finally have slots: "settle_all schedule (map Inr vs) ?none = Inr (map Some vs)"
    using settle_all_fulfils [of "?none" vs schedule] by simp
  have filled: "list_all (\<lambda>s. s \<noteq> None) (map Some vs)"
    by (simp add: list_all_iff)
  have "map the (map Some vs) = vs"
    by (simp add: comp_def)
  with slots filled show ?thesis
    by (simp add: Promise_all_def)
qed

lemma length_start_all: "start_all ms w = (rs, w') \<Longrightarrow> length rs = length ms"
  by (induction ms arbitrary: w rs) (auto split: prod.splits)

lemma start_all_nth:
  "start_all ms w = (rs, w') \<Longrightarrow> i < length ms \<Longrightarrow>
   fst ((ms ! i) (snd (start_all (take i ms) w))) = rs ! i"
proof (induction ms arbitrary: i w rs w')
  case Nil
  then show ?case by simp
next
  case (Cons m ms)
  obtain r w1 where m: "m w = (r, w1)" by (cases "m w")
  obtain rs1 w2 where rest: "start_all ms w1 = (rs1, w2)" by (cases "start_all ms w1")
  from Cons.prems(1) m rest have rs: "rs = r # rs1" by simp
  show ?case
  proof (cases i)
    case 0
    with m rs show ?thesis by simp
  next
    case (Suc j)
    with Cons.prems(2) have j: "j < length ms" by simp
    obtain rs2 w3 where pre: "start_all (take j ms) w1 = (rs2, w3)"
      by (cases "start_all (take j ms) w1")
    from Cons.IH [OF rest j] pre have "fst ((ms ! j) w3) = rs1 ! j" by simp
    with Suc m rs pre show ?thesis by simp
  qed
qed

lemma length_emailPromises [simp]:
  "length (emailPromises execute toLocaleString this m) = length (meeting_attendees m)"
  by (simp add: emailPromises_def)

subsection \<open>The registration sequence\<close>

lemmas tools_defs =
  Gmail_tools_def Calendar_tools_def Drive_tools_def Docs_tools_def Sheets_tools_def
  Slides_tools_def Forms_tools_def Chat_tools_def Search_tools_def Tasks_tools_def
  Comment_tools_def

lemmas group_defs =
  createGmailCustomTools_def createCalendarCustomTools_def createDriveCustomTools_def
  createDocsCustomTools_def createSheetsCustomTools_def createSlidesCustomTools_def
  createFormsCustomTools_def createChatCustomTools_def createSearchCustomTools_def
  createTasksCustomTools_def createCommentCustomTools_def

lemma create_each_append:
  "create_each create (ts @ us) = bind_io (create_each create ts) (\<lambda>_. create_each create us)"
proof
  fix r
  show "create_each create (ts @ us) r =
        bind_io (create_each create ts) (\<lambda>_. create_each create us) r"
  proof (induction ts arbitrary: r)
    case Nil
    show ?case by (simp add: bind_io_def)
  next
    case (Cons t ts)
    show ?case
    proof (cases "create t r")
      case (Pair x r')
      then show ?thesis using Cons.IH [of r'] by (cases x) (simp_all add: bind_io_def)
    qed
  qed
qed

lemma initializeCustomTools_sequence:
  "initializeCustomTools create = create_each create all_custom_tools"
  unfolding initializeCustomTools_def group_defs all_custom_tools_def create_each_append ..

lemma length_all_custom_tools: "length all_custom_tools = 86"
  by (simp add: all_custom_tools_def tools_defs)

lemma create_each_counted:
  "create_each create ts r = (Inr (), r') \<Longrightarrow>
   create_each (counted create) ts (n, r) = (Inr (), (n + length ts, r'))"
proof (induction ts arbitrary: r n)
  case Nil
  then show ?case by simp
next
  case (Cons t ts)
  show ?case
  proof (cases "create t r")
    case (Pair x r1)
    with Cons.prems obtain u where x: "x = Inr u"
      and rest: "create_each create ts r1 = (Inr (), r')"
      by (cases x) auto
    from Cons.IH [OF rest, of "Suc n"] Pair x show ?thesis
      by (simp add: counted_def)
  qed
qed

lemma create_each_record_tool: "create_each record_tool ts r = (Inr (), r @ ts)"
  by (induction ts arbitrary: r) (simp_all add: record_tool_def)

lemma initializeCustomTools_record_tool:
  "initializeCustomTools record_tool [] = (Inr (), all_custom_tools)"
  by (simp add: initializeCustomTools_sequence create_each_record_tool)

lemma create_each_register:
  "distinct (map slug (r @ ts)) \<Longrightarrow> create_each register ts r = (Inr (), r @ ts)"
proof (induction ts arbitrary: r)
  case Nil
  show ?case by simp
next
  case (Cons t ts)
  from Cons.prems have fresh: "slug t \<notin> set (map slug r)"
    and rest: "distinct (map slug ((r @ [t]) @ ts))"
    by auto
  from Cons.IH [OF rest] fresh show ?case
    by (simp add: register_def)
qed

lemma distinct_slugs: "distinct (map slug all_custom_tools)"
  by (simp add: all_custom_tools_def tools_defs)

subsection \<open>The service\<close>

lemma length_serve [simp]: "length (serve qs sr) = length qs"
  by (induction qs arbitrary: sr) (auto split: prod.splits)




subsection \<open>Validation\<close>

lemma check_fields_missing:
  "Field f t True None \<in> set schema \<Longrightarrow> property raw f = JUndefined \<Longrightarrow>
   MissingField f \<in> set (fst (check_fields schema raw))"
proof (induction schema)
  case Nil
  then show ?case by simp
next
  case (Cons fd schema)
  obtain n t' req d where fd: "fd = Field n t' req d" by (cases fd)
  obtain errs norm where rest: "check_fields schema raw = (errs, norm)"
    by (cases "check_fields schema raw")
  show ?case
  proof (cases "Field f t True None = fd")
    case True
    with fd Cons.prems(2) rest show ?thesis by simp
  next
    case False
    with Cons.prems have "Field f t True None \<in> set schema" by simp
    from Cons.IH [OF this Cons.prems(2)] rest have "MissingField f \<in> set errs" by simp
    with fd rest show ?thesis by (simp split: option.split)
  qed
qed

lemma check_fields_default:
  "Field f t req (Some dv) \<in> set schema \<Longrightarrow> property raw f = JUndefined \<Longrightarrow>
   (f, dv) \<in> set (snd (check_fields schema raw))"
proof (induction schema)
  case Nil
  then show ?case by simp
next
  case (Cons fd schema)
  obtain n t' req' d where fd: "fd = Field n t' req' d" by (cases fd)
  obtain errs norm where rest: "check_fields schema raw = (errs, norm)"
    by (cases "check_fields schema raw")
  show ?case
  proof (cases "Field f t req (Some dv) = fd")
    case True
    with fd Cons.prems(2) rest show ?thesis by auto
  next
    case False
    with Cons.prems have "Field f t req (Some dv) \<in> set schema" by simp
    from Cons.IH [OF this Cons.prems(2)] rest have "(f, dv) \<in> set norm" by simp
    with fd rest show ?thesis by (simp split: option.split)
  qed
qed

lemma join_with_contains:
  "x \<in> set xs \<Longrightarrow> \<exists>pre post. join_with sep xs = pre @ x @ post"
proof (induction sep xs rule: join_with.induct)
  case (1 sep)
  then show ?case by simp
next
  case (2 sep s)
  then have "join_with sep [s] = [] @ x @ []" by simp
  then show ?case by blast
next
  case (3 sep s t ss)
  show ?case
  proof (cases "x = s")
    case True
    then have "join_with sep (s # t # ss) = [] @ x @ (sep @ join_with sep (t # ss))" by simp
    then show ?thesis by blast
  next
    case False
    with 3 obtain pre post where "join_with sep (t # ss) = pre @ x @ post" by auto
    then have "join_with sep (s # t # ss) = (s @ sep @ pre) @ x @ post" by simp
    then show ?thesis by blast
  qed
qed

section \<open>The claims\<close>

subsection \<open>C1: a failing executor\<close>

text \<open>
  C1, as amended.  \<open>executeTool\<close> does not turn a failure into a result.  When the
  SDK's \<open>execute\<close> throws, \<open>executeTool\<close> throws the same value; when it returns a
  result whose \<open>successful\<close> flag is not truthy, \<open>executeTool\<close> throws an \<open>Error\<close>
  whose message is that result's \<open>error\<close>; only a successful result is returned, as its
  \<open>data\<close>.  In the batch of \<open>scheduleMeetingWithInvites\<close>, once the calendar event
  is created, a single invitation that fails rejects the whole operation with one of
  the failures, whatever the order in which the invitations settle.
\<close>

theorem executeTool_rethrows:
  fixes execute :: "'w sdk_execute"
  shows
    "(\<forall>outcome w'.
        execute toolSlug [(''userId'', JStr user), (''arguments'', JObj toolArguments)] w =
          (outcome, w') \<longrightarrow>
        executeTool execute toolSlug user toolArguments w =
          (case outcome of
             Inl thrown \<Rightarrow> (Inl thrown, w')
           | Inr result \<Rightarrow>
               if truthy (property result ''successful'')
               then (Inr (property result ''data''), w')
               else (Inl (new_Error (property result ''error'')), w'))) \<and>
     (\<forall>event w1 settled w2 e.
        createCalendarEvent execute this (meeting_as_event m) w = (Inr event, w1) \<and>
        start_all (emailPromises execute toLocaleString this m) w1 = (settled, w2) \<and>
        Inl e \<in> set settled \<and>
        set schedule = {..<length (meeting_attendees m)} \<longrightarrow>
        (\<exists>e'. Inl e' \<in> set settled \<and>
              scheduleMeetingWithInvites execute toLocaleString schedule this m w =
                (Rejected e', w2)))"
proof (intro conjI allI impI)
  fix outcome w'
  assume "execute toolSlug [(''userId'', JStr user), (''arguments'', JObj toolArguments)] w =
            (outcome, w')"
  then show "executeTool execute toolSlug user toolArguments w =
          (case outcome of
             Inl thrown \<Rightarrow> (Inl thrown, w')
           | Inr result \<Rightarrow>
               if truthy (property result ''successful'')
               then (Inr (property result ''data''), w')
               else (Inl (new_Error (property result ''error'')), w'))"
    by (cases outcome) (simp_all add: executeTool_def)
next
  fix event w1 settled w2 e
  assume a: "createCalendarEvent execute this (meeting_as_event m) w = (Inr event, w1) \<and>
        start_all (emailPromises execute toLocaleString this m) w1 = (settled, w2) \<and>
        Inl e \<in> set settled \<and>
        set schedule = {..<length (meeting_attendees m)}"
  then have len: "length settled = length (meeting_attendees m)"
    using length_start_all [of "emailPromises execute toLocaleString this m" w1 settled w2]
    by simp
  with a have "set schedule = {..<length settled}" by simp
  from Promise_all_rejects [OF this] a obtain e' where
    e': "Promise_all schedule settled = Rejected e'" "Inl e' \<in> set settled"
    by blast
  with a have "scheduleMeetingWithInvites execute toLocaleString schedule this m w =
                (Rejected e', w2)"
    by (simp add: scheduleMeetingWithInvites_def)
  with e' show "\<exists>e'. Inl e' \<in> set settled \<and>
              scheduleMeetingWithInvites execute toLocaleString schedule this m w =
                (Rejected e', w2)"
    by blast
qed

lemmas agent_defs =
  executeTool_def sendEmail_def createCalendarEvent_def uploadToDrive_def
  scheduleMeetingWithInvites_def emailPromises_def meeting_as_event_def spread_def
  of_optional_string_def Promise_all_def new_Error_def

lemmas fixture_defs =
  echo_sdk_def refusing_sdk_def throwing_sdk_def example_agent_def example_meeting_def
  example_env_def

text \<open>
  Witness for C1: the SDK refuses the invitation to the second of three attendees.
  \<open>executeTool\<close> throws for that call, and the meeting workflow is rejected with that
  error although the other two invitations succeeded; all four SDK calls were made.
\<close>

theorem executeTool_rethrows_witness:
  "executeTool (refusing_sdk ''b@x.org'') ''GMAIL_SEND_EMAIL'' ''default''
      [(''to'', JStr ''b@x.org'')] 0 = (Inl (Error ''quota exceeded''), 1) \<and>
   scheduleMeetingWithInvites (refusing_sdk ''b@x.org'') (\<lambda>s. s) [2, 0, 1]
      example_agent example_meeting 0 = (Rejected (Error ''quota exceeded''), 4)"
  using executeTool_rethrows
          [where execute = "refusing_sdk ''b@x.org''" and toolSlug = "''GMAIL_SEND_EMAIL''"
             and user = "''default''" and toolArguments = "[(''to'', JStr ''b@x.org'')]"
             and w = 0 and this = example_agent and m = example_meeting
             and toLocaleString = "\<lambda>s. s" and schedule = "[2, 0, 1]"]
  by (simp add: agent_defs fixture_defs)

text \<open>
  Counterexample to C1 as stated.  With an SDK whose \<open>execute\<close> throws
  \<open>Error('boom')\<close>, \<open>executeTool\<close> throws that error: its outcome is not an in-band
  result with the flag \<open>false\<close> and the message \<open>boom\<close>.  With an SDK that reports the
  unsuccessful result \<open>quota exceeded\<close>, \<open>executeTool\<close> throws as well.
\<close>

theorem executeTool_in_band_counterexample:
  "fst (executeTool throwing_sdk ''GMAIL_SEND_EMAIL'' ''default'' [(''to'', JStr ''a@x.org'')] 0)
     = Inl (Error ''boom'') \<and>
   \<not> in_band_failure
       (fst (executeTool throwing_sdk ''GMAIL_SEND_EMAIL'' ''default''
               [(''to'', JStr ''a@x.org'')] 0)) ''boom'' \<and>
   fst (executeTool (refusing_sdk ''a@x.org'') ''GMAIL_SEND_EMAIL'' ''default''
          [(''to'', JStr ''a@x.org'')] 0)
     = Inl (Error ''quota exceeded'') \<and>
   \<not> in_band_failure
       (fst (executeTool (refusing_sdk ''a@x.org'') ''GMAIL_SEND_EMAIL'' ''default''
               [(''to'', JStr ''a@x.org'')] 0)) ''quota exceeded''"
  by (simp add: agent_defs fixture_defs in_band_failure_def)

subsection \<open>C2: the result envelope\<close>

text \<open>
  C2.  The envelope invariant fails for the executors of \<open>index.ts\<close>.  On a list of
  one message id the executor of \<open>GMAIL_GET_MESSAGES_CONTENT_BATCH\<close> returns an object
  with \<open>data\<close> alone: \<open>data\<close> is populated although no flag says the call succeeded
  (\<open>successful\<close> reads \<open>undefined\<close>).  The executor of \<open>EMAIL_ANALYTICS\<close> in
  \<open>custom-tools\<close> returns \<open>data\<close>, \<open>successful: true\<close> and \<open>error: null\<close> and
  satisfies the invariant on every input.
\<close>

theorem GMAIL_GET_MESSAGES_CONTENT_BATCH_envelope:
  "GMAIL_GET_MESSAGES_CONTENT_BATCH_execute
      [(''message_ids'', JArr [JStr ''m1'']), (''user_google_email'', JStr ''a@b.c'')] =
     Inr [(''data'', JObj [(''messages'', JArr []), (''count'', JNum 1),
                           (''user_email'', JStr ''a@b.c'')])] \<and>
   property [(''data'', JObj [(''messages'', JArr []), (''count'', JNum 1),
                              (''user_email'', JStr ''a@b.c'')])] ''successful'' = JUndefined \<and>
   \<not> envelope_invariant
       [(''data'', JObj [(''messages'', JArr []), (''count'', JNum 1),
                         (''user_email'', JStr ''a@b.c'')])] \<and>
   (\<forall>env input. \<exists>result.
      EMAIL_ANALYTICS_execute env input = Inr result \<and> envelope_invariant result)"
  by (simp add: GMAIL_GET_MESSAGES_CONTENT_BATCH_execute_def get_length_def
        envelope_invariant_def populated_def EMAIL_ANALYTICS_execute_def)

subsection \<open>C3: the order of batch results\<close>

text \<open>
  C3, as amended.  The invitations of \<open>scheduleMeetingWithInvites\<close> are sent in
  parallel and collected by \<open>Promise.all\<close>.  When all N invitations succeed, with
  the results \<open>results\<close>, then for every order in which the N calls settle (every
  schedule that contains each of their indices, so every permutation) the workflow
  returns exactly \<open>results\<close> as \<open>emailsSent\<close>: there are N of them, and the \<open>i\<close>-th
  is what \<open>sendEmail\<close> returned for the \<open>i\<close>-th attendee, called after the
  invitations of the attendees before it.
\<close>

theorem emailsSent_in_attendee_order:
  fixes execute :: "'w sdk_execute"
  assumes perm: "set schedule = {..<length (meeting_attendees m)}"
    and event: "createCalendarEvent execute this (meeting_as_event m) w = (Inr event, w1)"
    and emails: "start_all (emailPromises execute toLocaleString this m) w1 =
                   (map Inr results, w2)"
  shows "length results = length (meeting_attendees m) \<and>
         (\<forall>i < length (meeting_attendees m).
            fst (sendEmail execute this (meeting_attendees m ! i)
                   (''Meeting Invite: '' @ meeting_title m) (emailBody toLocaleString m) None
                   (snd (start_all
                           (map (\<lambda>attendee.
                                   sendEmail execute this attendee
                                     (''Meeting Invite: '' @ meeting_title m)
                                     (emailBody toLocaleString m) None)
                                (take i (meeting_attendees m))) w1)))
              = Inr (results ! i)) \<and>
         Promise_all schedule (map Inr results) = Fulfilled results \<and>
         scheduleMeetingWithInvites execute toLocaleString schedule this m w =
           (Fulfilled (JObj [(''event'', event), (''emailsSent'', JArr results)]), w2)"
proof (intro conjI allI impI)
  from length_start_all [OF emails] show len: "length results = length (meeting_attendees m)"
    by simp
  with perm show all: "Promise_all schedule (map Inr results) = Fulfilled results"
    by (simp add: Promise_all_fulfils)
  from event emails all len
  show "scheduleMeetingWithInvites execute toLocaleString schedule this m w =
           (Fulfilled (JObj [(''event'', event), (''emailsSent'', JArr results)]), w2)"
    by (simp add: scheduleMeetingWithInvites_def)
  fix i
  assume i: "i < length (meeting_attendees m)"
  then have "i < length (emailPromises execute toLocaleString this m)" by simp
  from start_all_nth [OF emails this] i len
  show "fst (sendEmail execute this (meeting_attendees m ! i)
                   (''Meeting Invite: '' @ meeting_title m) (emailBody toLocaleString m) None
                   (snd (start_all
                           (map (\<lambda>attendee.
                                   sendEmail execute this attendee
                                     (''Meeting Invite: '' @ meeting_title m)
                                     (emailBody toLocaleString m) None)
                                (take i (meeting_attendees m))) w1)))
              = Inr (results ! i)"
    by (simp add: emailPromises_def take_map)
qed

text \<open>
  Witness for C3: three attendees whose invitations settle in the order third, first,
  second; \<open>emailsSent\<close> lists the answers for the first, second and third attendee.
\<close>

theorem emailsSent_in_attendee_order_witness:
  "scheduleMeetingWithInvites echo_sdk (\<lambda>s. s) [2, 0, 1] example_agent example_meeting 0 =
     (Fulfilled (JObj
        [(''event'', JObj [(''tool'', JStr ''GOOGLECALENDAR_CREATE_EVENT''), (''to'', JUndefined)]),
         (''emailsSent'', JArr
            [JObj [(''tool'', JStr ''GMAIL_SEND_EMAIL''), (''to'', JStr ''a@x.org'')],
             JObj [(''tool'', JStr ''GMAIL_SEND_EMAIL''), (''to'', JStr ''b@x.org'')],
             JObj [(''tool'', JStr ''GMAIL_SEND_EMAIL''), (''to'', JStr ''c@x.org'')]])]), 4)"
proof -
  have perm: "set [2, 0, 1 :: nat] = {..<length (meeting_attendees example_meeting)}"
    by (auto simp: example_meeting_def)
  have event: "createCalendarEvent echo_sdk example_agent (meeting_as_event example_meeting) 0 =
     (Inr (JObj [(''tool'', JStr ''GOOGLECALENDAR_CREATE_EVENT''), (''to'', JUndefined)]), 1)"
    by (simp add: agent_defs fixture_defs)
  have emails: "start_all (emailPromises echo_sdk (\<lambda>s. s) example_agent example_meeting) 1 =
     (map Inr [JObj [(''tool'', JStr ''GMAIL_SEND_EMAIL''), (''to'', JStr ''a@x.org'')],
               JObj [(''tool'', JStr ''GMAIL_SEND_EMAIL''), (''to'', JStr ''b@x.org'')],
               JObj [(''tool'', JStr ''GMAIL_SEND_EMAIL''), (''to'', JStr ''c@x.org'')]], 4)"
    by (simp add: agent_defs fixture_defs)
  from emailsSent_in_attendee_order [OF perm event emails] show ?thesis
    by simp
qed

text \<open>
  Counterexample to C3 as stated: a batch of three invitations of which the SDK
  refuses the third.  All three calls are made, and the workflow is rejected: it
  returns no list of results, in any order.
\<close>

theorem emailsSent_refused_counterexample:
  "scheduleMeetingWithInvites (refusing_sdk ''c@x.org'') (\<lambda>s. s) [0, 1, 2]
      example_agent example_meeting 0 = (Rejected (Error ''quota exceeded''), 4) \<and>
   (\<forall>returned.
      fst (scheduleMeetingWithInvites (refusing_sdk ''c@x.org'') (\<lambda>s. s) [0, 1, 2]
             example_agent example_meeting 0) \<noteq> Fulfilled returned)"
  by (simp add: agent_defs fixture_defs)

subsection \<open>C4: a missing required field\<close>

text \<open>
  C4.  For the dispatcher of the specification: when the request names a registered
  capability whose schema declares the field \<open>f\<close> required (with no default) and the
  raw input omits \<open>f\<close>, validation fails with a \<open>MissingField f\<close> error, \<open>dispatch\<close>
  returns \<open>succeeded = False\<close> with no data and an error message that names the field
  (\<open>missing field: f\<close>), and the state is the one \<open>dispatch\<close> started from: the
  executor, whatever it is, was not invoked.
\<close>

theorem missing_required_field_rejected:
  fixes registry :: "('c, 'r, 'w) descriptor list"
  assumes resolve:
      "find (\<lambda>d. descriptor_identifier d = request_identifier request) registry = Some d"
    and required: "Field f t True None \<in> set (inputSchema d)"
    and omitted: "f \<notin> fst ` set (rawInput request)"
  shows "\<exists>errs pre post.
           validate strict (inputSchema d) (rawInput request) = Inl errs \<and>
           MissingField f \<in> set errs \<and>
           dispatch strict registry ctx request w =
             (\<lparr>succeeded = False, data = None,
               errorMessage = Some (pre @ ''missing field: '' @ f @ post)\<rparr>, w)"
proof -
  obtain errs norm where cf: "check_fields (inputSchema d) (rawInput request) = (errs, norm)"
    by (cases "check_fields (inputSchema d) (rawInput request)")
  from check_fields_missing [OF required property_omitted [OF omitted]] cf
  have mem: "MissingField f \<in> set errs" by simp
  define all_errs where
    "all_errs = errs @ (if strict then unknown_fields (inputSchema d) (rawInput request) else [])"
  from mem have mem': "MissingField f \<in> set all_errs" by (simp add: all_errs_def)
  then have ne: "all_errs \<noteq> []" by auto
  with cf have v: "validate strict (inputSchema d) (rawInput request) = Inl all_errs"
    by (simp add: validate_def all_errs_def Let_def)
  from mem' have "render (MissingField f) \<in> set (map render all_errs)"
    by (simp del: render.simps)
  then obtain pre post where
    "join_with ''; '' (map render all_errs) = pre @ render (MissingField f) @ post"
    using join_with_contains by blast
  then have msg: "join_with ''; '' (map render all_errs) = pre @ ''missing field: '' @ f @ post"
    by simp
  from resolve v msg have
    "dispatch strict registry ctx request w =
       (\<lparr>succeeded = False, data = None,
         errorMessage = Some (pre @ ''missing field: '' @ f @ post)\<rparr>, w)"
    by (simp add: dispatch_def failed_def)
  with v mem' show ?thesis by blast
qed

text \<open>
  Witness for C4: \<open>GMAIL_BATCH_DELETE_MESSAGES\<close> requires \<open>message_ids\<close>.  A request
  without it is answered \<open>missing field: message_ids\<close> and the invocation count stays
  0; a request with both fields runs the executor once.
\<close>

theorem missing_required_field_rejected_witness:
  "dispatch False [GMAIL_BATCH_DELETE_MESSAGES] ()
      \<lparr>request_identifier = ''GMAIL_BATCH_DELETE_MESSAGES'',
       rawInput = [(''user_google_email'', JStr ''a@b.c'')]\<rparr> 0 =
     (\<lparr>succeeded = False, data = None,
       errorMessage = Some ''missing field: message_ids''\<rparr>, 0) \<and>
   dispatch False [GMAIL_BATCH_DELETE_MESSAGES] ()
      \<lparr>request_identifier = ''GMAIL_BATCH_DELETE_MESSAGES'',
       rawInput = [(''message_ids'', JArr [JStr ''m1'', JStr ''m2'']),
                   (''user_google_email'', JStr ''a@b.c'')]\<rparr> 0 =
     (\<lparr>succeeded = True,
       data = Some [(''data'', JObj [(''deleted_count'', JNum 2),
                                    (''message_ids'', JArr [JStr ''m1'', JStr ''m2'']),
                                    (''status'', JStr ''success'')])],
       errorMessage = None\<rparr>, 1)"
  using missing_required_field_rejected
          [where registry = "[GMAIL_BATCH_DELETE_MESSAGES]"
             and request = "\<lparr>request_identifier = ''GMAIL_BATCH_DELETE_MESSAGES'',
                              rawInput = [(''user_google_email'', JStr ''a@b.c'')]\<rparr>"
             and d = GMAIL_BATCH_DELETE_MESSAGES and f = "''message_ids''" and t = "TList TString"
             and strict = False and ctx = "()" and w = "0 :: nat"]
  by (simp add: dispatch_def validate_def GMAIL_BATCH_DELETE_MESSAGES_def
        GMAIL_BATCH_DELETE_MESSAGES_inputParams_def GMAIL_BATCH_DELETE_MESSAGES_execute_def
        get_length_def failed_def)

subsection \<open>C5: defaults of omitted fields\<close>



subsection \<open>C6: the number of registrations\<close>

text \<open>
  C6.  A complete run of \<open>initializeCustomTools\<close> makes 86 registrations, not 84:
  whatever the SDK's \<open>createCustomTool\<close> does, when the run returns, the call counter
  wrapped around it stands at 86.  The health route reports \<open>tools_count\<close> 84.
\<close>

theorem initializeCustomTools_registrations:
  assumes "initializeCustomTools create r = (Inr (), r')"
  shows "initializeCustomTools (counted create) (0, r) = (Inr (), (86, r')) \<and>
         property (health env this) ''tools_count'' = JNum 84"
  using create_each_counted [of create all_custom_tools r r' 0] assms
  by (simp add: initializeCustomTools_sequence length_all_custom_tools health_def)

text \<open>
  Witness for C6: the run against the registry that records every definition.
\<close>

theorem initializeCustomTools_registrations_witness:
  "initializeCustomTools record_tool [] = (Inr (), all_custom_tools) \<and>
   initializeCustomTools (counted record_tool) (0, []) = (Inr (), (86, all_custom_tools)) \<and>
   length all_custom_tools = 86 \<and>
   property (health example_env new_service) ''tools_count'' = JNum 84"
  using initializeCustomTools_registrations
          [OF initializeCustomTools_record_tool, of example_env new_service]
        initializeCustomTools_record_tool length_all_custom_tools
  by simp

subsection \<open>C7: readiness\<close>



subsection \<open>C8: distinct slugs\<close>

text \<open>
  C8, as amended.  The slugs passed to the registrations of a complete run of
  \<open>initializeCustomTools\<close> are pairwise distinct, so a registry that refuses a
  duplicate identifier accepts the whole startup sequence: run against \<open>register\<close>
  from the empty registry, \<open>initializeCustomTools\<close> returns and has registered every
  tool, in order.
\<close>

theorem custom_tool_slugs_distinct:
  "distinct (map slug all_custom_tools) \<and>
   initializeCustomTools record_tool [] = (Inr (), all_custom_tools) \<and>
   initializeCustomTools register [] = (Inr (), all_custom_tools)"
  using create_each_register [of "[]" all_custom_tools] distinct_slugs
  by (simp add: initializeCustomTools_sequence create_each_record_tool)

text \<open>
  Counterexample to C8 as stated: the slugs of a complete run are not 84 in number.
\<close>

theorem custom_tool_slugs_count_counterexample:
  "snd (initializeCustomTools record_tool []) = all_custom_tools \<and>
   length (map slug all_custom_tools) \<noteq> 84"
  by (simp add: initializeCustomTools_record_tool length_all_custom_tools)

subsection \<open>C9: \<open>SHEETS_MODIFY_SHEET_VALUES\<close>\<close>

text \<open>
  C9.  The executor of \<open>SHEETS_MODIFY_SHEET_VALUES\<close>: when \<open>clear_values\<close> is
  \<open>true\<close> the result reports the operation \<open>clear\<close> and 0 updated cells, rows and
  columns.  Otherwise (\<open>clear_values\<close> is \<open>false\<close> or omitted, as its boolean schema
  allows) it reports the operation \<open>update\<close>; \<open>updated_rows\<close> is the number of rows
  of the supplied \<open>values\<close> array and 0 when \<open>values\<close> is omitted;
  \<open>updated_columns\<close> is the length of the first row and 0 when there is no first row.
\<close>

theorem SHEETS_MODIFY_SHEET_VALUES_report:
  fixes input :: obj
  defines "d \<equiv> sel (property (SHEETS_MODIFY_SHEET_VALUES_execute input) ''data'')"
  shows
    "(property input ''clear_values'' = JBool True \<longrightarrow>
        d ''operation'' = JStr ''clear'' \<and> d ''updated_cells'' = JNum 0 \<and>
        d ''updated_rows'' = JNum 0 \<and> d ''updated_columns'' = JNum 0) \<and>
     (property input ''clear_values'' = JBool False \<or>
      property input ''clear_values'' = JUndefined \<longrightarrow>
        d ''operation'' = JStr ''update'' \<and>
        (property input ''values'' = JUndefined \<longrightarrow>
           d ''updated_rows'' = JNum 0 \<and> d ''updated_columns'' = JNum 0) \<and>
        (\<forall>rows. property input ''values'' = JArr rows \<longrightarrow>
           d ''updated_rows'' = JNum (int (length rows)) \<and>
           (rows = [] \<longrightarrow> d ''updated_columns'' = JNum 0) \<and>
           (\<forall>cells rest. rows = JArr cells # rest \<longrightarrow>
              d ''updated_columns'' = JNum (int (length cells)))))"
  unfolding d_def SHEETS_MODIFY_SHEET_VALUES_execute_def Let_def
  by (auto simp: destructure_default_def js_or_def opt_chain_def nullish_def)

text \<open>
  Witness for C9: a write of two rows of three cells, and a clear.
\<close>

theorem SHEETS_MODIFY_SHEET_VALUES_report_witness:
  "sel (property (SHEETS_MODIFY_SHEET_VALUES_execute
      [(''user_google_email'', JStr ''a@b.c''), (''spreadsheet_id'', JStr ''s1''),
       (''range_name'', JStr ''Sheet1!A1:C2''),
       (''values'', JArr [JArr [JStr ''1'', JStr ''2'', JStr ''3''],
                          JArr [JStr ''4'', JStr ''5'', JStr ''6'']])])
      ''data'') ''updated_rows'' = JNum 2 \<and>
   sel (property (SHEETS_MODIFY_SHEET_VALUES_execute
      [(''user_google_email'', JStr ''a@b.c''), (''spreadsheet_id'', JStr ''s1''),
       (''range_name'', JStr ''Sheet1!A1:C2''),
       (''values'', JArr [JArr [JStr ''1'', JStr ''2'', JStr ''3''],
                          JArr [JStr ''4'', JStr ''5'', JStr ''6'']])])
      ''data'') ''updated_columns'' = JNum 3 \<and>
   sel (property (SHEETS_MODIFY_SHEET_VALUES_execute
      [(''user_google_email'', JStr ''a@b.c''), (''spreadsheet_id'', JStr ''s1''),
       (''range_name'', JStr ''Sheet1!A1:C2''), (''clear_values'', JBool True)])
      ''data'') ''operation'' = JStr ''clear''"
  using SHEETS_MODIFY_SHEET_VALUES_report
          [of "[(''user_google_email'', JStr ''a@b.c''), (''spreadsheet_id'', JStr ''s1''),
                (''range_name'', JStr ''Sheet1!A1:C2''),
                (''values'', JArr [JArr [JStr ''1'', JStr ''2'', JStr ''3''],
                                   JArr [JStr ''4'', JStr ''5'', JStr ''6'']])]"]
        SHEETS_MODIFY_SHEET_VALUES_report
          [of "[(''user_google_email'', JStr ''a@b.c''), (''spreadsheet_id'', JStr ''s1''),
                (''range_name'', JStr ''Sheet1!A1:C2''), (''clear_values'', JBool True)]"]
  by simp

subsection \<open>C10: the connection guard\<close>

text \<open>
  C10.  When the service a convenience method needs (\<open>gmail\<close> for \<open>sendEmail\<close>,
  \<open>googlecalendar\<close> for \<open>createCalendarEvent\<close>, \<open>googledrive\<close> for
  \<open>uploadToDrive\<close>) is not in \<open>connectedServices\<close>, the method throws its
  not-connected error and leaves the SDK's state untouched, whatever \<open>execute\<close> would
  do: no tool execution is attempted.  When the service is connected, the method is
  one call of \<open>executeTool\<close> with the method's tool slug and the agent's user id.
\<close>

theorem convenience_methods_require_connection:
  fixes execute :: "'w sdk_execute"
  shows
  "(''gmail'' \<notin> connectedServices this \<longrightarrow>
      sendEmail execute this to subject body options w =
        (Inl (Error ''Gmail not connected. Please authenticate first.''), w)) \<and>
   (''gmail'' \<in> connectedServices this \<longrightarrow>
      sendEmail execute this to subject body options w =
        executeTool execute ''GMAIL_SEND_EMAIL'' (userId this)
          (spread [(''to'', JStr to), (''subject'', JStr subject), (''body'', JStr body)]
             options) w) \<and>
   (''googlecalendar'' \<notin> connectedServices this \<longrightarrow>
      createCalendarEvent execute this event w =
        (Inl (Error ''Google Calendar not connected. Please authenticate first.''), w)) \<and>
   (''googlecalendar'' \<in> connectedServices this \<longrightarrow>
      (\<exists>toolArguments. createCalendarEvent execute this event w =
         executeTool execute ''GOOGLECALENDAR_CREATE_EVENT'' (userId this) toolArguments w)) \<and>
   (''googledrive'' \<notin> connectedServices this \<longrightarrow>
      uploadToDrive execute this filename content parentFolderId w =
        (Inl (Error ''Google Drive not connected. Please authenticate first.''), w)) \<and>
   (''googledrive'' \<in> connectedServices this \<longrightarrow>
      (\<exists>toolArguments. uploadToDrive execute this filename content parentFolderId w =
         executeTool execute ''GOOGLEDRIVE_UPLOAD_FILE'' (userId this) toolArguments w))"
  by (auto simp: sendEmail_def createCalendarEvent_def uploadToDrive_def Let_def)

text \<open>
  Witness for C10: an agent connected to Gmail and Calendar but not to Drive.  Its
  \<open>sendEmail\<close> reaches the SDK once; its \<open>uploadToDrive\<close> throws with the SDK's call
  count still 0.
\<close>

theorem convenience_methods_require_connection_witness:
  "sendEmail echo_sdk example_agent ''a@x.org'' ''Hello'' ''Hi there'' None 0 =
     (Inr (JObj [(''tool'', JStr ''GMAIL_SEND_EMAIL''), (''to'', JStr ''a@x.org'')]), 1) \<and>
   uploadToDrive echo_sdk example_agent ''notes.txt'' ''text'' None 0 =
     (Inl (Error ''Google Drive not connected. Please authenticate first.''), 0)"
  using convenience_methods_require_connection
          [where execute = echo_sdk and this = example_agent and to = "''a@x.org''"
             and subject = "''Hello''" and body = "''Hi there''" and options = None
             and w = 0 and filename = "''notes.txt''" and content = "''text''"
             and parentFolderId = None
             and event = "meeting_as_event example_meeting"]
  by (simp add: agent_defs fixture_defs)

end
